theory Spec2Isabelle
  imports Complex_Main "HOL-Library.Multiset"
begin

section \<open>Python values used by app.py\<close>

text \<open>
  Strings are lists of characters; a character stands for a code point below 256.
  Exceptions are values: every raise of the source is a branch of the model.
\<close>

datatype exn =
    AttributeError
  | KeyError
  | IndexError
  | TypeError
  | ValueError
  | CollaboratorError string

subsection \<open>str.lower, str.join, str.split, str.startswith\<close>

definition lower_char :: "char \<Rightarrow> char" where
  "lower_char c =
     (let n = (of_char c :: nat)
      in if (65 \<le> n \<and> n \<le> 90) \<or> (192 \<le> n \<and> n \<le> 214) \<or> (216 \<le> n \<and> n \<le> 222)
         then char_of (n + 32) else c)"

definition lower :: "string \<Rightarrow> string" where
  "lower s = map lower_char s"

text \<open>
  The specification's "equal up to letter case", stated without \<open>lower\<close>: two strings of
  the same length whose characters agree position by position, where two characters agree
  when they are the same or one is the capital and the other the small form of one letter.
\<close>

definition case_pair :: "char \<Rightarrow> char \<Rightarrow> bool" where
  "case_pair up lo =
     (let n = (of_char up :: nat); m = (of_char lo :: nat)
      in m = n + 32 \<and> ((65 \<le> n \<and> n \<le> 90) \<or> (192 \<le> n \<and> n \<le> 222 \<and> n \<noteq> 215)))"

definition same_letter :: "char \<Rightarrow> char \<Rightarrow> bool" where
  "same_letter a b = (a = b \<or> case_pair a b \<or> case_pair b a)"

definition equal_up_to_case :: "string \<Rightarrow> string \<Rightarrow> bool" where
  "equal_up_to_case s t = list_all2 same_letter s t"

fun join :: "string \<Rightarrow> string list \<Rightarrow> string" where
  "join sep [] = []"
| "join sep [x] = x"
| "join sep (x # y # ys) = x @ sep @ join sep (y # ys)"

text \<open>\<open>s.split(" ")\<close>: every single space separates, empty fields are kept.\<close>

fun split_acc :: "string \<Rightarrow> string \<Rightarrow> string list" where
  "split_acc cur [] = [rev cur]"
| "split_acc cur (c # cs) =
     (if c = CHR '' '' then rev cur # split_acc [] cs else split_acc (c # cur) cs)"

definition split_space :: "string \<Rightarrow> string list" where
  "split_space s = split_acc [] s"

definition startswith :: "string \<Rightarrow> string \<Rightarrow> bool" where
  "startswith s p = (take (length p) s = p)"

text \<open>\<open>needle in haystack\<close> on two strings: the substring test.\<close>

fun contains :: "string \<Rightarrow> string \<Rightarrow> bool" where
  "contains [] needle = (needle = [])"
| "contains (c # cs) needle = (startswith (c # cs) needle \<or> contains cs needle)"

text \<open>\<open>str(x)\<close> of an optional string, as an f-string prints the result of \<open>os.getenv\<close>.\<close>

fun str_opt :: "string option \<Rightarrow> string" where
  "str_opt None = ''None''"
| "str_opt (Some s) = s"

subsection \<open>Floats and the builtin float()\<close>

text \<open>
  A float is a finite value, an infinity or NaN. Finite values are kept exact: rounding to
  the nearest double and overflow to infinity are not modelled, and the integer 0 that
  initialises the ledger is identified with the float 0.0.
\<close>

datatype pyfloat = Finite rat | PosInf | NegInf | NaN

fun fneg :: "pyfloat \<Rightarrow> pyfloat" where
  "fneg (Finite a) = Finite (- a)"
| "fneg PosInf = NegInf"
| "fneg NegInf = PosInf"
| "fneg NaN = NaN"

fun fadd :: "pyfloat \<Rightarrow> pyfloat \<Rightarrow> pyfloat" where
  "fadd (Finite a) (Finite b) = Finite (a + b)"
| "fadd NaN _ = NaN"
| "fadd _ NaN = NaN"
| "fadd PosInf NegInf = NaN"
| "fadd NegInf PosInf = NaN"
| "fadd PosInf _ = PosInf"
| "fadd NegInf _ = NegInf"
| "fadd _ PosInf = PosInf"
| "fadd _ NegInf = NegInf"

definition fsub :: "pyfloat \<Rightarrow> pyfloat \<Rightarrow> pyfloat" where
  "fsub a b = fadd a (fneg b)"

text \<open>\<open>a <= b\<close> on floats: every comparison with NaN is false.\<close>

fun fle :: "pyfloat \<Rightarrow> pyfloat \<Rightarrow> bool" where
  "fle (Finite a) (Finite b) = (a \<le> b)"
| "fle NaN _ = False"
| "fle _ NaN = False"
| "fle NegInf _ = True"
| "fle _ PosInf = True"
| "fle PosInf (Finite b) = False"
| "fle PosInf NegInf = False"
| "fle (Finite a) NegInf = False"

definition is_space :: "char \<Rightarrow> bool" where
  "is_space c = (of_char c \<in> set [9, 10, 11, 12, 13, 32, 133, 160 :: nat])"

definition is_digit :: "char \<Rightarrow> bool" where
  "is_digit c = (48 \<le> (of_char c :: nat) \<and> (of_char c :: nat) \<le> 57)"

text \<open>The specification's amount, "a non-negative decimal number": digits with an optional
  fraction, and at least one digit.\<close>

definition decimal_amount :: "string \<Rightarrow> bool" where
  "decimal_amount s =
     (let ip = takeWhile is_digit s; r = dropWhile is_digit s
      in case r of
           [] \<Rightarrow> ip \<noteq> []
         | c # fp \<Rightarrow> c = CHR ''.'' \<and> list_all is_digit fp \<and> (ip \<noteq> [] \<or> fp \<noteq> []))"

definition strip :: "string \<Rightarrow> string" where
  "strip s = rev (dropWhile is_space (rev (dropWhile is_space s)))"

text \<open>
  An underscore is accepted only between two digits and is then dropped; the first
  argument is the previous character, if any.
\<close>

fun drop_underscores :: "char option \<Rightarrow> string \<Rightarrow> string option" where
  "drop_underscores prev [] = (if prev = Some CHR ''_'' then None else Some [])"
| "drop_underscores prev (c # cs) =
     (if c = CHR ''_'' then
        (case prev of
           None \<Rightarrow> None
         | Some p \<Rightarrow> if is_digit p then drop_underscores (Some c) cs else None)
      else if prev = Some CHR ''_'' \<and> \<not> is_digit c then None
      else map_option ((#) c) (drop_underscores (Some c) cs))"

definition digits_value :: "string \<Rightarrow> nat" where
  "digits_value ds = foldl (\<lambda>acc c. 10 * acc + (of_char c - 48)) 0 ds"

text \<open>The exponent part: empty, or \<open>e\<close> with an optional sign and at least one digit.\<close>

definition exponent :: "string \<Rightarrow> int option" where
  "exponent s =
     (case s of
        [] \<Rightarrow> Some 0
      | c # r \<Rightarrow>
          if c = CHR ''e'' \<or> c = CHR ''E'' then
            (let (neg, ds) =
                   (case r of
                      [] \<Rightarrow> (False, [])
                    | d # r' \<Rightarrow> if d = CHR ''-'' then (True, r')
                                else if d = CHR ''+'' then (False, r') else (False, r))
             in if ds \<noteq> [] \<and> list_all is_digit ds
                then Some (if neg then - int (digits_value ds) else int (digits_value ds))
                else None)
          else None)"

definition scale10 :: "nat \<Rightarrow> int \<Rightarrow> rat" where
  "scale10 m e = (if 0 \<le> e then of_nat m * 10 ^ nat e else of_nat m / 10 ^ nat (- e))"

text \<open>An unsigned literal: \<open>inf\<close>, \<open>infinity\<close>, \<open>nan\<close>, or digits with an optional
  fraction and exponent and at least one digit in the mantissa.\<close>

definition unsigned_float :: "string \<Rightarrow> pyfloat option" where
  "unsigned_float s =
     (if lower s = ''inf'' \<or> lower s = ''infinity'' then Some PosInf
      else if lower s = ''nan'' then Some NaN
      else
        (let ip = takeWhile is_digit s;
             r1 = dropWhile is_digit s;
             (fp, r2) =
               (case r1 of
                  [] \<Rightarrow> ([], [])
                | c # r \<Rightarrow> if c = CHR ''.'' then (takeWhile is_digit r, dropWhile is_digit r)
                           else ([], r1))
         in if ip = [] \<and> fp = [] then None
            else (case exponent r2 of
                    None \<Rightarrow> None
                  | Some e \<Rightarrow> Some (Finite (scale10 (digits_value (ip @ fp)) (e - int (length fp)))))))"

definition signed_float :: "string \<Rightarrow> pyfloat option" where
  "signed_float s =
     (case s of
        [] \<Rightarrow> None
      | c # r \<Rightarrow>
          if c = CHR ''-'' then map_option fneg (unsigned_float r)
          else if c = CHR ''+'' then unsigned_float r
          else unsigned_float s)"

text \<open>\<open>float(s)\<close> on a string: the value, or ValueError.\<close>

definition float_of_str :: "string \<Rightarrow> exn + pyfloat" where
  "float_of_str s =
     (case (if CHR ''_'' \<in> set s then drop_underscores None s else Some s) of
        None \<Rightarrow> Inl ValueError
      | Some t \<Rightarrow> (case signed_float (strip t) of None \<Rightarrow> Inl ValueError | Some x \<Rightarrow> Inr x))"

subsection \<open>Decoded JSON payloads\<close>

text \<open>
  What \<open>response.json()\<close> returns. An object lists the items of the decoded dict, each
  key once. Numbers are kept exact.
\<close>

datatype json =
    JNull
  | JBool bool
  | JNum rat
  | JStr string
  | JArr "json list"
  | JObj "(string \<times> json) list"

text \<open>\<open>d[k]\<close> with a string key: only a dict has one.\<close>

fun getitem_key :: "json \<Rightarrow> string \<Rightarrow> exn + json" where
  "getitem_key (JObj kvs) k = (case map_of kvs k of None \<Rightarrow> Inl KeyError | Some v \<Rightarrow> Inr v)"
| "getitem_key _ k = Inl TypeError"

text \<open>\<open>d[0]\<close>: the first element of a list, the first character of a string.\<close>

fun getitem_0 :: "json \<Rightarrow> exn + json" where
  "getitem_0 (JArr xs) = (case xs of [] \<Rightarrow> Inl IndexError | x # _ \<Rightarrow> Inr x)"
| "getitem_0 (JStr s) = (case s of [] \<Rightarrow> Inl IndexError | c # _ \<Rightarrow> Inr (JStr [c]))"
| "getitem_0 (JObj kvs) = Inl KeyError"
| "getitem_0 _ = Inl TypeError"

text \<open>\<open>k in d\<close> for a string \<open>k\<close>.\<close>

fun json_contains :: "json \<Rightarrow> string \<Rightarrow> exn + bool" where
  "json_contains (JObj kvs) k = Inr (map_of kvs k \<noteq> None)"
| "json_contains (JArr xs) k = Inr (JStr k \<in> set xs)"
| "json_contains (JStr s) k = Inr (contains s k)"
| "json_contains _ k = Inl TypeError"

text \<open>The items of \<open>sep.join(items)\<close> must all be strings.\<close>

fun str_items :: "json list \<Rightarrow> exn + string list" where
  "str_items [] = Inr []"
| "str_items (JStr s # xs) = (case str_items xs of Inl e \<Rightarrow> Inl e | Inr ss \<Rightarrow> Inr (s # ss))"
| "str_items (_ # xs) = Inl TypeError"

text \<open>\<open>x + [y]\<close>: only a list can be extended by a list.\<close>

fun list_plus :: "json \<Rightarrow> json list \<Rightarrow> exn + json list" where
  "list_plus (JArr xs) ys = Inr (xs @ ys)"
| "list_plus _ ys = Inl TypeError"

fun and_then :: "exn + 'a \<Rightarrow> ('a \<Rightarrow> exn + 'b) \<Rightarrow> exn + 'b" where
  "and_then (Inl e) f = Inl e"
| "and_then (Inr x) f = f x"

text \<open>
  \<open>random.shuffle(x)\<close>: for \<open>i\<close> from \<open>len(x) - 1\<close> down to 1, swap \<open>x[i]\<close> with
  \<open>x[j]\<close> for a random \<open>j \<le> i\<close>. The random source is a function of \<open>i\<close>.
\<close>

fun shuffle_from :: "(nat \<Rightarrow> nat) \<Rightarrow> nat \<Rightarrow> 'a list \<Rightarrow> 'a list" where
  "shuffle_from r 0 xs = xs"
| "shuffle_from r (Suc i) xs =
     (let j = r (Suc i) mod (Suc i + 1)
      in shuffle_from r i (xs[Suc i := xs ! j, j := xs ! Suc i]))"

definition shuffle :: "(nat \<Rightarrow> nat) \<Rightarrow> 'a list \<Rightarrow> 'a list" where
  "shuffle r xs = shuffle_from r (length xs - 1) xs"

section \<open>The bot's state and its collaborators\<close>

text \<open>
  A reply is the text of one \<open>reply_text\<close> call. Parts that an f-string prints from a float
  or from a JSON value that is not a string are kept as values.
\<close>

datatype piece = Txt string | Num pyfloat | Val json

fun fmt :: "json \<Rightarrow> piece" where
  "fmt (JStr s) = Txt s"
| "fmt j = Val j"

datatype log_entry = MembershipError exn | UpdateWarning exn

text \<open>A job of the scheduler: \<open>schedule.every(n).minutes.do(callback)\<close>; the callback
  replies with a fixed text. Times are seconds.\<close>

record job =
  interval_minutes :: nat
  job_text :: string
  next_run :: nat

text \<open>
  The state one handler call sees: the process-wide \<open>finance_data\<close> and scheduler, the
  \<open>user_data\<close> of the session, and what has been sent and logged so far.
\<close>

record state =
  income :: pyfloat
  expenses :: pyfloat
  user_data :: "string \<rightharpoonup> json"
  jobs :: "job list"
  now :: nat
  replies :: "piece list list"
  group_messages :: "string list"
  logged :: "log_entry list"

definition initial_state :: state where
  "initial_state =
     \<lparr>income = Finite 0, expenses = Finite 0, user_data = Map.empty, jobs = [], now = 0,
      replies = [], group_messages = [], logged = []\<rparr>"

text \<open>The environment: configuration read with \<open>os.getenv\<close>, and the outcome of each
  call of an external collaborator (a value, or the exception it raises).\<close>

record env =
  CHANNEL_LINK :: "string option"
  GROUP_ID :: "string option"
  WEATHER_API_KEY :: "string option"
  LASTFM_API_KEY :: "string option"
  get_chat_member :: "string option \<Rightarrow> nat \<Rightarrow> exn + string"
  requests_get_json :: "string \<Rightarrow> exn + json"
  randbelow :: "nat \<Rightarrow> nat"
  send_message :: "string option \<Rightarrow> string \<Rightarrow> exn option"

text \<open>The update: the sender, if the message has one, and the message text.\<close>

record update =
  from_user :: "nat option"
  message_text :: string

text \<open>A handler returns, raises, or is still in its loop when the fuel is spent; in each
  case the effects it had so far stay.\<close>

datatype outcome = Returns state | Raises exn state | Running state

fun final :: "outcome \<Rightarrow> state" where
  "final (Returns s) = s"
| "final (Raises e s) = s"
| "final (Running s) = s"

text \<open>\<open>update.message.reply_text(r)\<close> adds \<open>r\<close> to the replies sent; a failure of the
  sending itself is not modelled.\<close>

definition reply_text :: "state \<Rightarrow> piece list \<Rightarrow> state" where
  "reply_text s r = s\<lparr>replies := replies s @ [r]\<rparr>"

section \<open>The membership gate\<close>

text \<open>The body of the \<open>try\<close>: the sender's id, then the collaborator's answer.\<close>

definition member_status :: "env \<Rightarrow> update \<Rightarrow> exn + string" where
  "member_status env u =
     (case from_user u of
        None \<Rightarrow> Inl AttributeError
      | Some user_id \<Rightarrow> get_chat_member env (CHANNEL_LINK env) user_id)"

definition check_channel_member :: "env \<Rightarrow> update \<Rightarrow> state \<Rightarrow> bool \<times> state" where
  "check_channel_member env u s =
     (case member_status env u of
        Inr status \<Rightarrow> (status \<in> set [''member'', ''administrator'', ''creator''], s)
      | Inl e \<Rightarrow> (False, s\<lparr>logged := logged s @ [MembershipError e]\<rparr>))"

definition join_prompt :: "env \<Rightarrow> piece list" where
  "join_prompt env = [Txt (''Please join the channel first: '' @ str_opt (CHANNEL_LINK env))]"

text \<open>The first lines of every command handler: the gate, and the prompt when it is false.\<close>

definition gated ::
  "env \<Rightarrow> update \<Rightarrow> state \<Rightarrow> (state \<Rightarrow> outcome) \<Rightarrow> outcome" where
  "gated env u s body =
     (case check_channel_member env u s of
        (False, s0) \<Rightarrow> Returns (reply_text s0 (join_prompt env))
      | (True, s0) \<Rightarrow> body s0)"

section \<open>Command handlers\<close>

definition start :: "env \<Rightarrow> update \<Rightarrow> string list \<Rightarrow> state \<Rightarrow> outcome" where
  "start env u args s =
     gated env u s (\<lambda>s0. Returns (reply_text s0
       [Txt ''Welcome to Super Bot! Choose a feature: /quiz, /finance, /study, /weather, /music, /fitness, /language, /confession'']))"

definition send_confession_to_group :: "env \<Rightarrow> string \<Rightarrow> state \<Rightarrow> exn + state" where
  "send_confession_to_group env confession s =
     (case send_message env (GROUP_ID env) confession of
        Some e \<Rightarrow> Inl e
      | None \<Rightarrow> Inr (s\<lparr>group_messages := group_messages s @ [confession]\<rparr>))"

definition confession :: "env \<Rightarrow> update \<Rightarrow> string list \<Rightarrow> state \<Rightarrow> outcome" where
  "confession env u args s =
     gated env u s (\<lambda>s0.
       let confession_text = join '' '' args
       in if confession_text \<noteq> [] then
            (case send_confession_to_group env confession_text s0 of
               Inl e \<Rightarrow> Raises e s0
             | Inr s1 \<Rightarrow> Returns (reply_text s1 [Txt ''Your confession has been sent anonymously!'']))
          else Returns (reply_text s0 [Txt ''Please provide a confession after the command.'']))"

subsection \<open>quiz and check_answer\<close>

definition trivia_url :: string where
  "trivia_url = ''https://opentdb.com/api.php?amount=1&type=multiple''"

text \<open>The question text, the options before the shuffle and the correct answer.\<close>

definition quiz_question :: "json \<Rightarrow> exn + (json \<times> json list \<times> json)" where
  "quiz_question question_data =
     and_then (getitem_key question_data ''results'') (\<lambda>results.
     and_then (getitem_0 results) (\<lambda>question.
     and_then (getitem_key question ''question'') (\<lambda>question_text.
     and_then (getitem_key question ''incorrect_answers'') (\<lambda>incorrect.
     and_then (getitem_key question ''correct_answer'') (\<lambda>correct_answer.
     and_then (list_plus incorrect [correct_answer]) (\<lambda>options.
       Inr (question_text, options, correct_answer)))))))"

definition quiz :: "env \<Rightarrow> update \<Rightarrow> string list \<Rightarrow> state \<Rightarrow> outcome" where
  "quiz env u args s =
     gated env u s (\<lambda>s0.
       case and_then (requests_get_json env trivia_url) quiz_question of
         Inl e \<Rightarrow> Raises e s0
       | Inr (question_text, options, correct_answer) \<Rightarrow>
           (case str_items (shuffle (randbelow env) options) of
              Inl e \<Rightarrow> Raises e s0
            | Inr opts \<Rightarrow>
                Returns ((reply_text s0
                            [Txt ''Question: '', fmt question_text,
                             Txt (CHR 0x0A # ''Options: '' @ join '', '' opts)])
                         \<lparr>user_data := (user_data s0)(''correct_answer'' \<mapsto> correct_answer)\<rparr>)))"

text \<open>\<open>user_data.get("correct_answer")\<close> is None when no quiz has stored an answer, and
  None has no \<open>lower\<close>.\<close>

definition check_answer :: "update \<Rightarrow> state \<Rightarrow> outcome" where
  "check_answer u s =
     (let user_answer = message_text u
      in case user_data s ''correct_answer'' of
           Some (JStr correct_answer) \<Rightarrow>
             if lower user_answer = lower correct_answer
             then Returns (reply_text s [Txt ''Correct!''])
             else Returns (reply_text s
                    [Txt (''Incorrect! The correct answer was: '' @ correct_answer)])
         | _ \<Rightarrow> Raises AttributeError s)"

subsection \<open>finance\<close>

text \<open>\<open>float(command.split(" ")[1])\<close>: IndexError without a second field, ValueError when
  it is not a float literal.\<close>

definition amount_of :: "string \<Rightarrow> exn + pyfloat" where
  "amount_of command =
     (case split_space command of
        _ # token # _ \<Rightarrow> float_of_str token
      | _ \<Rightarrow> Inl IndexError)"

definition finance :: "env \<Rightarrow> update \<Rightarrow> string list \<Rightarrow> state \<Rightarrow> outcome" where
  "finance env u args s =
     gated env u s (\<lambda>s0.
       let command = lower (join '' '' args)
       in if startswith command ''income'' then
            (case amount_of command of
               Inr amount \<Rightarrow>
                 (let s1 = s0\<lparr>income := fadd (income s0) amount\<rparr>
                  in Returns (reply_text s1
                       [Txt ''Income of '', Num amount, Txt '' added. Total income: '',
                        Num (income s1)]))
             | Inl e \<Rightarrow>
                 if e = ValueError \<or> e = IndexError
                 then Returns (reply_text s0 [Txt ''Please provide a valid income amount.''])
                 else Raises e s0)
          else if startswith command ''expense'' then
            (case amount_of command of
               Inr amount \<Rightarrow>
                 (let s1 = s0\<lparr>expenses := fadd (expenses s0) amount\<rparr>
                  in Returns (reply_text s1
                       [Txt ''Expense of '', Num amount, Txt '' added. Total expenses: '',
                        Num (expenses s1)]))
             | Inl e \<Rightarrow>
                 if e = ValueError \<or> e = IndexError
                 then Returns (reply_text s0 [Txt ''Please provide a valid expense amount.''])
                 else Raises e s0)
          else if command = ''balance'' then
            (let balance = fsub (income s0) (expenses s0)
             in Returns (reply_text s0 [Txt ''Your balance is: '', Num balance]))
          else Returns (reply_text s0
                 [Txt ''Use /finance income <amount>, /finance expense <amount>, or /finance balance.'']))"

text \<open>A sequence of \<open>/finance\<close> commands, each with its update and its arguments, handled
  one after the other.\<close>

fun finance_run :: "env \<Rightarrow> (update \<times> string list) list \<Rightarrow> state \<Rightarrow> state" where
  "finance_run env [] s = s"
| "finance_run env ((u, args) # cmds) s = finance_run env cmds (final (finance env u args s))"

subsection \<open>study\<close>

text \<open>\<open>schedule.every(n).minutes.do(callback)\<close> appends a job that is first due \<open>n\<close>
  minutes from now.\<close>

definition every_minutes_do :: "nat \<Rightarrow> string \<Rightarrow> state \<Rightarrow> state" where
  "every_minutes_do n txt s =
     s\<lparr>jobs := jobs s @ [\<lparr>interval_minutes = n, job_text = txt, next_run = now s + 60 * n\<rparr>]\<rparr>"

text \<open>\<open>schedule.run_pending()\<close>: the due jobs run in the order of their due times, and each
  is scheduled again one interval from now.\<close>

definition run_pending :: "state \<Rightarrow> state" where
  "run_pending s =
     (let due = sort_key next_run (filter (\<lambda>j. next_run j \<le> now s) (jobs s))
      in s\<lparr>replies := replies s @ map (\<lambda>j. [Txt (job_text j)]) due,
           jobs := map (\<lambda>j. if next_run j \<le> now s
                             then j\<lparr>next_run := now s + 60 * interval_minutes j\<rparr> else j)
                       (jobs s)\<rparr>)"

definition sleep_1 :: "state \<Rightarrow> state" where
  "sleep_1 s = s\<lparr>now := now s + 1\<rparr>"

text \<open>\<open>while True: schedule.run_pending(); time.sleep(1)\<close>, with fuel: one unit for each
  turn of the loop. The loop has no exit.\<close>

fun study_loop :: "nat \<Rightarrow> state \<Rightarrow> outcome" where
  "study_loop 0 s = Running s"
| "study_loop (Suc fuel) s = study_loop fuel (sleep_1 (run_pending s))"

definition study :: "nat \<Rightarrow> env \<Rightarrow> update \<Rightarrow> string list \<Rightarrow> state \<Rightarrow> outcome" where
  "study fuel env u args s =
     gated env u s (\<lambda>s0.
       let s1 = every_minutes_do 25 ''Work session is over. Take a 5-minute break!'' s0;
           s2 = every_minutes_do 5 ''Break time is over. Time to work!'' s1;
           s3 = reply_text s2
                  [Txt ''Pomodoro timer started! Work for 25 minutes, then take a 5-minute break.'']
       in study_loop fuel s3)"

subsection \<open>weather, music, fitness, language\<close>

definition weather_url :: "env \<Rightarrow> string \<Rightarrow> string" where
  "weather_url env city =
     ''http://api.openweathermap.org/data/2.5/weather?q='' @ city @ ''&appid=''
       @ str_opt (WEATHER_API_KEY env) @ ''&units=metric''"

definition weather_report :: "json \<Rightarrow> exn + (json \<times> json) option" where
  "weather_report weather_data =
     and_then (getitem_key weather_data ''cod'') (\<lambda>cod.
       if cod = JNum 200 then
         and_then (getitem_key weather_data ''main'') (\<lambda>main.
         and_then (getitem_key weather_data ''weather'') (\<lambda>w.
         and_then (getitem_0 w) (\<lambda>w0.
         and_then (getitem_key w0 ''description'') (\<lambda>weather_desc.
         and_then (getitem_key main ''temp'') (\<lambda>temperature.
           Inr (Some (weather_desc, temperature)))))))
       else Inr None)"

definition weather :: "env \<Rightarrow> update \<Rightarrow> string list \<Rightarrow> state \<Rightarrow> outcome" where
  "weather env u args s =
     gated env u s (\<lambda>s0.
       let city = join '' '' args
       in if city = [] then Returns (reply_text s0 [Txt ''Please provide a city name.''])
          else
            (case and_then (requests_get_json env (weather_url env city)) weather_report of
               Inl e \<Rightarrow> Raises e s0
             | Inr (Some (weather_desc, temperature)) \<Rightarrow>
                 Returns (reply_text s0
                   [Txt (''Weather in '' @ city @ '':'' @ [CHR 0x0A]), fmt weather_desc,
                    Txt (CHR 0x0A # ''Temperature: ''), fmt temperature,
                    Txt [char_of (176 :: nat), CHR ''C'']])
             | Inr None \<Rightarrow> Returns (reply_text s0 [Txt ''City not found!''])))"

definition music_url :: "env \<Rightarrow> string \<Rightarrow> string" where
  "music_url env genre =
     ''http://ws.audioscrobbler.com/2.0/?method=tag.gettoptracks&tag='' @ genre @ ''&api_key=''
       @ str_opt (LASTFM_API_KEY env) @ ''&format=json''"

definition first_track :: "json \<Rightarrow> exn + json" where
  "first_track music_data =
     and_then (getitem_key music_data ''tracks'') (\<lambda>tracks.
     and_then (getitem_key tracks ''track'') getitem_0)"

definition top_track :: "json \<Rightarrow> exn + (json \<times> json) option" where
  "top_track music_data =
     and_then (json_contains music_data ''error'') (\<lambda>err.
       if err then Inr None
       else
         and_then (first_track music_data) (\<lambda>t.
         and_then (getitem_key t ''name'') (\<lambda>track.
         and_then (first_track music_data) (\<lambda>t'.
         and_then (getitem_key t' ''artist'') (\<lambda>a.
         and_then (getitem_key a ''name'') (\<lambda>artist.
           Inr (Some (track, artist))))))))"

definition music :: "env \<Rightarrow> update \<Rightarrow> string list \<Rightarrow> state \<Rightarrow> outcome" where
  "music env u args s =
     gated env u s (\<lambda>s0.
       let genre = join '' '' args
       in if genre = [] then
            Returns (reply_text s0 [Txt ''Please provide a genre (e.g., /music pop).''])
          else
            (case and_then (requests_get_json env (music_url env genre)) top_track of
               Inl e \<Rightarrow> Raises e s0
             | Inr None \<Rightarrow> Returns (reply_text s0 [Txt ''Could not find music for that genre.''])
             | Inr (Some (track, artist)) \<Rightarrow>
                 Returns (reply_text s0
                   [Txt (''Top '' @ genre @ '' track: ''), fmt track, Txt '' by '', fmt artist])))"

definition fitness :: "env \<Rightarrow> update \<Rightarrow> string list \<Rightarrow> state \<Rightarrow> outcome" where
  "fitness env u args s =
     gated env u s (\<lambda>s0.
       let command = lower (join '' '' args)
       in if startswith command ''log'' then
            (let workout = join '' '' (drop 1 (split_space command))
             in Returns (reply_text s0
                  [Txt (''Workout '' @ [CHR 0x27] @ workout @ [CHR 0x27] @ '' logged!'')]))
          else Returns (reply_text s0 [Txt ''Use /fitness log <workout> to log a workout.'']))"

definition word_url :: string where
  "word_url = ''https://api.dictionaryapi.dev/api/v2/entries/en/<word>''"

definition get_word_of_the_day :: "env \<Rightarrow> exn + json" where
  "get_word_of_the_day env =
     and_then (requests_get_json env word_url) (\<lambda>word_data. getitem_key word_data ''word'')"

definition language :: "env \<Rightarrow> update \<Rightarrow> string list \<Rightarrow> state \<Rightarrow> outcome" where
  "language env u args s =
     gated env u s (\<lambda>s0.
       case get_word_of_the_day env of
         Inl e \<Rightarrow> Raises e s0
       | Inr word_of_the_day \<Rightarrow>
           Returns (reply_text s0 [Txt ''Word of the Day: '', fmt word_of_the_day]))"

section \<open>The dispatcher set up by main\<close>

text \<open>The error callback logs a warning.\<close>

definition error :: "exn \<Rightarrow> state \<Rightarrow> state" where
  "error e s = s\<lparr>logged := logged s @ [UpdateWarning e]\<rparr>"

datatype event = Command string "string list" | FreeText

text \<open>The command handlers in the order \<open>main\<close> adds them; \<open>study\<close> takes the fuel of its
  loop.\<close>

definition command_handlers ::
  "nat \<Rightarrow> (string \<times> (env \<Rightarrow> update \<Rightarrow> string list \<Rightarrow> state \<Rightarrow> outcome)) list" where
  "command_handlers fuel =
     [(''start'', start), (''confession'', confession), (''quiz'', quiz), (''finance'', finance),
      (''study'', study fuel), (''weather'', weather), (''music'', music),
      (''fitness'', fitness), (''language'', language)]"

text \<open>
  A command goes to the handler of its name, and to none when the name is unknown; text
  that is not a command goes to \<open>check_answer\<close>.
\<close>

definition handle :: "nat \<Rightarrow> env \<Rightarrow> update \<Rightarrow> event \<Rightarrow> state \<Rightarrow> outcome" where
  "handle fuel env u ev s =
     (case ev of
        Command name args \<Rightarrow>
          (case map_of (command_handlers fuel) name of
             Some h \<Rightarrow> h env u args s
           | None \<Rightarrow> Returns s)
      | FreeText \<Rightarrow> check_answer u s)"

text \<open>An exception that leaves the handler reaches the error callback.\<close>

definition dispatch :: "nat \<Rightarrow> env \<Rightarrow> update \<Rightarrow> event \<Rightarrow> state \<Rightarrow> outcome" where
  "dispatch fuel env u ev s =
     (case handle fuel env u ev s of
        Raises e s' \<Rightarrow> Returns (error e s')
      | out \<Rightarrow> out)"

section \<open>Example inputs\<close>

text \<open>A payload of the trivia service, an environment in which every sender is a member
  and only the trivia service answers, and an update.\<close>

definition trivia_payload :: json where
  "trivia_payload =
     JObj [(''response_code'', JNum 0),
           (''results'',
            JArr [JObj [(''question'', JStr ''What is the capital of France?''),
                        (''correct_answer'', JStr ''Paris''),
                        (''incorrect_answers'',
                         JArr [JStr ''Rome'', JStr ''Oslo'', JStr ''Bern''])]])]"

definition member_env :: env where
  "member_env =
     \<lparr>CHANNEL_LINK = Some ''@titan'', GROUP_ID = Some ''-100'', WEATHER_API_KEY = None,
      LASTFM_API_KEY = None,
      get_chat_member = (\<lambda>c uid. Inr ''member''),
      requests_get_json = (\<lambda>url. if url = trivia_url then Inr trivia_payload
                                   else Inl (CollaboratorError ''ConnectionError'')),
      randbelow = (\<lambda>i. 0),
      send_message = (\<lambda>g t. None)\<rparr>"

definition alice :: update where
  "alice = \<lparr>from_user = Some 7, message_text = ''/quiz''\<rparr>"

fun returned :: "outcome \<Rightarrow> bool" where
  "returned (Returns s) = True"
| "returned _ = False"


text \<open>The membership collaborator reports that the sender has left the channel.\<close>

definition stranger_env :: env where
  "stranger_env = member_env\<lparr>get_chat_member := (\<lambda>c uid. Inr ''left'')\<rparr>"

text \<open>The membership collaborator fails.\<close>

definition failing_env :: env where
  "failing_env =
     member_env\<lparr>get_chat_member := (\<lambda>c uid. Inl (CollaboratorError ''TimedOut''))\<rparr>"

text \<open>A session in which a quiz has stored the answer "Paris".\<close>

definition answered_state :: state where
  "answered_state = initial_state\<lparr>user_data := [''correct_answer'' \<mapsto> JStr ''Paris'']\<rparr>"

section \<open>Basic facts\<close>

lemma returned_final: "returned out \<Longrightarrow> out = Returns (final out)"
  by (cases out) simp_all

lemma and_then_Inr: "and_then m f = Inr y \<longleftrightarrow> (\<exists>x. m = Inr x \<and> f x = Inr y)"
  by (cases m) simp_all

subsection \<open>Comparing lowercased strings is comparing up to letter case\<close>

lemma of_char_lower_char:
  "(of_char (lower_char c) :: nat) =
     (let n = of_char c
      in if (65 \<le> n \<and> n \<le> 90) \<or> (192 \<le> n \<and> n \<le> 214) \<or> (216 \<le> n \<and> n \<le> 222)
         then n + 32 else n)"
  by (auto simp: lower_char_def Let_def)

lemma lower_char_eq_iff: "lower_char a = lower_char b \<longleftrightarrow> same_letter a b"
proof -
  have "lower_char a = lower_char b
          \<longleftrightarrow> (of_char (lower_char a) :: nat) = of_char (lower_char b)"
    by simp
  also have "\<dots> \<longleftrightarrow> same_letter a b"
  proof -
    have ab: "a = b \<longleftrightarrow> (of_char a :: nat) = of_char b" by simp
    show ?thesis
      unfolding of_char_lower_char same_letter_def case_pair_def ab Let_def
      by presburger
  qed
  finally show ?thesis .
qed

lemma lower_eq_iff: "lower s = lower t \<longleftrightarrow> equal_up_to_case s t"
  unfolding lower_def equal_up_to_case_def
proof (induction s arbitrary: t)
  case Nil
  then show ?case by auto
next
  case (Cons a s)
  then show ?case by (cases t) (auto simp: lower_char_eq_iff)
qed

subsection \<open>The shuffle permutes\<close>

lemma mset_shuffle_from: "i < length xs \<Longrightarrow> mset (shuffle_from r i xs) = mset xs"
proof (induction i arbitrary: xs)
  case 0
  then show ?case by simp
next
  case (Suc i)
  let ?j = "r (Suc i) mod (Suc i + 1)"
  have "?j < Suc i + 1" by (rule mod_less_divisor) simp
  then have j: "?j < length xs" using Suc.prems by linarith
  have "mset (xs[Suc i := xs ! ?j, ?j := xs ! Suc i]) = mset xs"
    using Suc.prems j by (simp add: mset_swap)
  moreover have "i < length (xs[Suc i := xs ! ?j, ?j := xs ! Suc i])"
    using Suc.prems by simp
  ultimately show ?case using Suc.IH by (simp add: Let_def)
qed

lemma set_shuffle: "set (shuffle r xs) = set xs"
proof (cases xs)
  case Nil
  then show ?thesis by (simp add: shuffle_def)
next
  case (Cons a list)
  then have "mset (shuffle r xs) = mset xs"
    unfolding shuffle_def by (intro mset_shuffle_from) simp
  then show ?thesis by (rule mset_eq_setD)
qed

subsection \<open>The gate\<close>

lemma gated_pass: "fst (check_channel_member env u s) \<Longrightarrow> gated env u s body = body s"
  by (auto simp: gated_def check_channel_member_def split: sum.splits prod.splits bool.splits)

lemma gated_deny:
  "\<not> fst (check_channel_member env u s) \<Longrightarrow>
   gated env u s body = Returns (reply_text (snd (check_channel_member env u s)) (join_prompt env))"
  by (auto simp: gated_def split: prod.splits bool.splits)

subsection \<open>What quiz stores is a string\<close>

lemma str_items_JStr: "str_items xs = Inr ss \<Longrightarrow> x \<in> set xs \<Longrightarrow> \<exists>c. x = JStr c"
proof (induction xs arbitrary: ss rule: str_items.induct)
  case 1
  then show ?case by simp
next
  case (2 s xs)
  then show ?case by (auto split: sum.splits)
qed simp_all

lemma list_plus_Inr: "list_plus j ys = Inr zs \<Longrightarrow> set ys \<subseteq> set zs"
  by (cases j) auto

lemma quiz_question_answer_in_options:
  "quiz_question qd = Inr (q, os, ca) \<Longrightarrow> ca \<in> set os"
  unfolding quiz_question_def
  by (auto simp: and_then_Inr dest: list_plus_Inr)

lemma quiz_Returns:
  assumes "fst (check_channel_member env u s)" and "quiz env u args s = Returns s1"
  shows "\<exists>q os c. and_then (requests_get_json env trivia_url) quiz_question = Inr (q, os, JStr c)
           \<and> user_data s1 ''correct_answer'' = Some (JStr c)"
proof -
  from assms obtain q os ca opts where
    f: "and_then (requests_get_json env trivia_url) quiz_question = Inr (q, os, ca)" and
    si: "str_items (shuffle (randbelow env) os) = Inr opts" and
    s1: "s1 = (reply_text s [Txt ''Question: '', fmt q,
                 Txt (CHR 0x0A # ''Options: '' @ join '', '' opts)])
               \<lparr>user_data := (user_data s)(''correct_answer'' \<mapsto> ca)\<rparr>"
    by (auto simp: quiz_def gated_pass split: sum.splits prod.splits)
  from f obtain qd where "quiz_question qd = Inr (q, os, ca)"
    by (auto simp: and_then_Inr)
  then have "ca \<in> set (shuffle (randbelow env) os)"
    by (simp add: set_shuffle quiz_question_answer_in_options)
  with si obtain c where "ca = JStr c"
    using str_items_JStr by blast
  with f s1 show ?thesis by simp
qed

lemma check_answer_stored:
  "user_data s ''correct_answer'' = Some (JStr c) \<Longrightarrow>
   check_answer u s =
     Returns (reply_text s [Txt (if lower (message_text u) = lower c then ''Correct!''
                                 else ''Incorrect! The correct answer was: '' @ c)])"
  by (simp add: check_answer_def)

section \<open>The quiz and its answer\<close>

text \<open>
  C1. When the sender passes the gate and \<open>quiz\<close> returns, it has stored the correct answer
  of the fetched question, a string \<open>c\<close>. The next free-text message is then answered
  with "Correct!" when it equals \<open>c\<close> up to letter case, and with
  "Incorrect! The correct answer was: " followed by \<open>c\<close> otherwise.
\<close>

theorem quiz_then_check_answer:
  assumes "fst (check_channel_member env u s)" and "quiz env u args s = Returns s1"
  shows "\<exists>q os c. and_then (requests_get_json env trivia_url) quiz_question = Inr (q, os, JStr c)
           \<and> user_data s1 ''correct_answer'' = Some (JStr c)
           \<and> (\<forall>u'. check_answer u' s1 =
                 Returns (reply_text s1
                   [Txt (if equal_up_to_case (message_text u') c then ''Correct!''
                         else ''Incorrect! The correct answer was: '' @ c)]))"
proof -
  from quiz_Returns [OF assms] obtain q os c where
    f: "and_then (requests_get_json env trivia_url) quiz_question = Inr (q, os, JStr c)" and
    ud: "user_data s1 ''correct_answer'' = Some (JStr c)"
    by blast
  from ud have "\<forall>u'. check_answer u' s1 =
      Returns (reply_text s1
        [Txt (if equal_up_to_case (message_text u') c then ''Correct!''
              else ''Incorrect! The correct answer was: '' @ c)])"
    by (simp add: check_answer_stored lower_eq_iff)
  with f ud show ?thesis by blast
qed

theorem quiz_then_check_answer_witness:
  "fst (check_channel_member member_env alice initial_state)
   \<and> quiz member_env alice [] initial_state
       = Returns (final (quiz member_env alice [] initial_state))
   \<and> user_data (final (quiz member_env alice [] initial_state)) ''correct_answer''
       = Some (JStr ''Paris'')
   \<and> check_answer \<lparr>from_user = Some 7, message_text = ''pArIs''\<rparr>
         (final (quiz member_env alice [] initial_state))
       = Returns (reply_text (final (quiz member_env alice [] initial_state)) [Txt ''Correct!''])
   \<and> check_answer \<lparr>from_user = Some 7, message_text = ''PARIS''\<rparr>
         (final (quiz member_env alice [] initial_state))
       = Returns (reply_text (final (quiz member_env alice [] initial_state)) [Txt ''Correct!''])
   \<and> check_answer \<lparr>from_user = Some 7, message_text = ''Rome''\<rparr>
         (final (quiz member_env alice [] initial_state))
       = Returns (reply_text (final (quiz member_env alice [] initial_state))
                    [Txt ''Incorrect! The correct answer was: Paris''])"
proof -
  let ?s1 = "final (quiz member_env alice [] initial_state)"
  have h1: "fst (check_channel_member member_env alice initial_state)"
    by code_simp
  have "returned (quiz member_env alice [] initial_state)"
    by code_simp
  then have h2: "quiz member_env alice [] initial_state = Returns ?s1"
    by (rule returned_final)
  have ud: "user_data ?s1 ''correct_answer'' = Some (JStr ''Paris'')"
    by code_simp
  have e1: "equal_up_to_case ''pArIs'' ''Paris''"
    by code_simp
  have e2: "equal_up_to_case ''PARIS'' ''Paris''"
    by code_simp
  have e3: "\<not> equal_up_to_case ''Rome'' ''Paris''"
    by code_simp
  from quiz_then_check_answer [OF h1 h2] obtain c where
    c: "user_data ?s1 ''correct_answer'' = Some (JStr c)" and
    r: "\<forall>u'. check_answer u' ?s1 =
          Returns (reply_text ?s1
            [Txt (if equal_up_to_case (message_text u') c then ''Correct!''
                  else ''Incorrect! The correct answer was: '' @ c)])"
    by blast
  from c ud have p: "c = ''Paris''" by simp
  have a1: "check_answer \<lparr>from_user = Some 7, message_text = ''pArIs''\<rparr> ?s1
              = Returns (reply_text ?s1 [Txt ''Correct!''])"
    using r [rule_format, of "\<lparr>from_user = Some 7, message_text = ''pArIs''\<rparr>"] e1
    unfolding p by simp
  have a2: "check_answer \<lparr>from_user = Some 7, message_text = ''PARIS''\<rparr> ?s1
              = Returns (reply_text ?s1 [Txt ''Correct!''])"
    using r [rule_format, of "\<lparr>from_user = Some 7, message_text = ''PARIS''\<rparr>"] e2
    unfolding p by simp
  have a3: "check_answer \<lparr>from_user = Some 7, message_text = ''Rome''\<rparr> ?s1
              = Returns (reply_text ?s1 [Txt ''Incorrect! The correct answer was: Paris''])"
    using r [rule_format, of "\<lparr>from_user = Some 7, message_text = ''Rome''\<rparr>"] e3
    unfolding p by simp
  from h1 h2 ud a1 a2 a3 show ?thesis by blast
qed

text \<open>
  C2. In a session in which no quiz has stored an answer, \<open>check_answer\<close> raises
  AttributeError on a free-text message and sends no reply: the lookup gives None, and
  None has no \<open>lower\<close>.
\<close>

theorem check_answer_without_quiz:
  "check_answer \<lparr>from_user = Some 7, message_text = ''hello''\<rparr> initial_state
     = Raises AttributeError initial_state"
  by (simp add: check_answer_def initial_state_def)

section \<open>The stored answer after an evaluation\<close>

text \<open>
  C3, as stated, fails: after \<open>check_answer\<close> has evaluated the wrong answer "Rome" against
  the stored "Paris", the slot still holds "Paris".
\<close>

theorem check_answer_keeps_answer_counterexample:
  "user_data (final (check_answer \<lparr>from_user = Some 7, message_text = ''Rome''\<rparr>
      (final (quiz member_env alice [] initial_state)))) ''correct_answer''
     = Some (JStr ''Paris'')"
  by code_simp

text \<open>
  C3, amended. \<open>check_answer\<close> reads the stored answer and leaves \<open>user_data\<close> as it is,
  whether the message matched or not: the next free-text message is evaluated against the
  same answer.
\<close>

theorem check_answer_keeps_answer:
  assumes "user_data s ''correct_answer'' = Some (JStr c)"
  shows "\<exists>s'. check_answer u s = Returns s' \<and> user_data s' = user_data s
           \<and> (\<forall>u'. check_answer u' s' =
                 Returns (reply_text s'
                   [Txt (if lower (message_text u') = lower c then ''Correct!''
                         else ''Incorrect! The correct answer was: '' @ c)]))"
proof -
  let ?s' = "reply_text s [Txt (if lower (message_text u) = lower c then ''Correct!''
                                else ''Incorrect! The correct answer was: '' @ c)]"
  have r: "check_answer u s = Returns ?s'"
    using assms by (rule check_answer_stored)
  have ud: "user_data ?s' = user_data s"
    by (simp add: reply_text_def)
  with assms have "user_data ?s' ''correct_answer'' = Some (JStr c)"
    by simp
  then have "\<forall>u'. check_answer u' ?s' =
      Returns (reply_text ?s'
        [Txt (if lower (message_text u') = lower c then ''Correct!''
              else ''Incorrect! The correct answer was: '' @ c)])"
    by (simp only: check_answer_stored simp_thms)
  with r ud show ?thesis by blast
qed

theorem check_answer_keeps_answer_witness:
  "user_data (final (quiz member_env alice [] initial_state)) ''correct_answer''
     = Some (JStr ''Paris'')
   \<and> (\<exists>s'. check_answer alice (final (quiz member_env alice [] initial_state)) = Returns s'
          \<and> user_data s' = user_data (final (quiz member_env alice [] initial_state))
          \<and> (\<forall>u'. check_answer u' s' =
                Returns (reply_text s'
                  [Txt (if lower (message_text u') = lower ''Paris'' then ''Correct!''
                        else ''Incorrect! The correct answer was: '' @ ''Paris'')])))"
proof -
  have h: "user_data (final (quiz member_env alice [] initial_state)) ''correct_answer''
     = Some (JStr ''Paris'')"
    by code_simp
  from check_answer_keeps_answer [OF h, of alice] h show ?thesis by blast
qed

section \<open>Float comparison, and what the gate leaves alone\<close>

lemma fle_refl: "fle (Finite 0) x \<Longrightarrow> fle x x"
  by (cases x) simp_all

lemma fle_fadd:
  "fle (Finite 0) x \<Longrightarrow> fle (Finite 0) a \<Longrightarrow> fle x (fadd x a) \<and> fle (Finite 0) (fadd x a)"
  by (cases x; cases a) simp_all

lemma fle_trans: "fle x y \<Longrightarrow> fle y z \<Longrightarrow> fle x z"
  by (cases x; cases y; cases z) simp_all

lemma amount_of_errors: "amount_of c = Inl e \<Longrightarrow> e = ValueError \<or> e = IndexError"
  by (auto simp: amount_of_def float_of_str_def split: list.splits option.splits if_splits)

section \<open>The ledger\<close>

lemma ccm_fields:
  "income (snd (check_channel_member env u s)) = income s"
  "expenses (snd (check_channel_member env u s)) = expenses s"
  by (simp_all add: check_channel_member_def split: sum.splits)

lemma finance_cases:
  "final (finance env u args s) = reply_text (snd (check_channel_member env u s)) (join_prompt env)
   \<or> (\<exists>r. final (finance env u args s) = reply_text s r)
   \<or> (\<exists>a r. amount_of (lower (join '' '' args)) = Inr a
          \<and> final (finance env u args s) = reply_text (s\<lparr>income := fadd (income s) a\<rparr>) r)
   \<or> (\<exists>a r. amount_of (lower (join '' '' args)) = Inr a
          \<and> final (finance env u args s) = reply_text (s\<lparr>expenses := fadd (expenses s) a\<rparr>) r)"
proof (cases "fst (check_channel_member env u s)")
  case False
  then show ?thesis by (simp add: finance_def gated_deny)
next
  case True
  then show ?thesis
    by (auto simp: finance_def gated_pass Let_def split: sum.splits dest: amount_of_errors)
qed

lemma finance_step:
  assumes "\<forall>a. amount_of (lower (join '' '' args)) = Inr a \<longrightarrow> fle (Finite 0) a"
    and "fle (Finite 0) (income s)" and "fle (Finite 0) (expenses s)"
  shows "fle (income s) (income (final (finance env u args s)))
       \<and> fle (expenses s) (expenses (final (finance env u args s)))
       \<and> fle (Finite 0) (income (final (finance env u args s)))
       \<and> fle (Finite 0) (expenses (final (finance env u args s)))"
  using finance_cases [of env u args s] assms
  by (auto simp: reply_text_def ccm_fields fle_refl fle_fadd)

lemma finance_run_append:
  "finance_run env (pre @ post) s = finance_run env post (finance_run env pre s)"
  by (induction pre arbitrary: s) auto

lemma finance_run_mono:
  assumes "\<forall>(u, args) \<in> set cmds.
             \<forall>a. amount_of (lower (join '' '' args)) = Inr a \<longrightarrow> fle (Finite 0) a"
    and "fle (Finite 0) (income s)" and "fle (Finite 0) (expenses s)"
  shows "fle (income s) (income (finance_run env cmds s))
       \<and> fle (expenses s) (expenses (finance_run env cmds s))
       \<and> fle (Finite 0) (income (finance_run env cmds s))
       \<and> fle (Finite 0) (expenses (finance_run env cmds s))"
  using assms
proof (induction cmds arbitrary: s)
  case Nil
  then show ?case by (simp add: fle_refl)
next
  case (Cons cmd cmds)
  obtain u args where cmd: "cmd = (u, args)" by (cases cmd)
  let ?s1 = "final (finance env u args s)"
  have a: "\<forall>a. amount_of (lower (join '' '' args)) = Inr a \<longrightarrow> fle (Finite 0) a"
    using Cons.prems(1) cmd by auto
  note st = finance_step [OF a Cons.prems(2) Cons.prems(3), of env u]
  have rest: "\<forall>(u, args) \<in> set cmds.
             \<forall>a. amount_of (lower (join '' '' args)) = Inr a \<longrightarrow> fle (Finite 0) a"
    using Cons.prems(1) by auto
  from st have "fle (Finite 0) (income ?s1)" "fle (Finite 0) (expenses ?s1)" by simp_all
  note ih = Cons.IH [OF rest this]
  from st ih show ?case
    by (auto simp: cmd intro: fle_trans)
qed

lemma command_income_50:
  "lower ''income 50'' = ''income 50''" "startswith ''income 50'' ''income''"
  "amount_of ''income 50'' = Inr (Finite 50)"
  by code_simp+

lemma command_income_25:
  "lower ''income 25'' = ''income 25''" "startswith ''income 25'' ''income''"
  "amount_of ''income 25'' = Inr (Finite 25)"
  by code_simp+

lemma command_expense_30:
  "lower ''expense 30'' = ''expense 30''" "\<not> startswith ''expense 30'' ''income''"
  "startswith ''expense 30'' ''expense''" "amount_of ''expense 30'' = Inr (Finite 30)"
  by code_simp+

text \<open>
  C4, as stated, fails: \<open>float\<close> accepts a negative literal, and \<open>/finance income -5\<close> from a
  member takes the income total from 0 to -5, below zero and below its previous value.
\<close>

theorem finance_negative_amount_counterexample:
  "income (final (finance member_env alice [''income'', ''-5''] initial_state)) = Finite (- 5)
   \<and> \<not> fle (Finite 0) (income (final (finance member_env alice [''income'', ''-5''] initial_state)))
   \<and> \<not> fle (income initial_state)
          (income (final (finance member_env alice [''income'', ''-5''] initial_state)))"
  by code_simp

text \<open>
  C4, amended. \<open>finance\<close> accepts every amount that \<open>float\<close> parses. Over a sequence of
  finance commands in which every amount that parses is at least 0, started with both totals
  at least 0, the income total and the expenses total are at least 0 after every prefix of
  the sequence and never decrease from a prefix to a longer one.
\<close>

theorem finance_totals_monotone:
  assumes "\<forall>(u, args) \<in> set (pre @ post).
             \<forall>a. amount_of (lower (join '' '' args)) = Inr a \<longrightarrow> fle (Finite 0) a"
    and "fle (Finite 0) (income s)" and "fle (Finite 0) (expenses s)"
  shows "fle (Finite 0) (income (finance_run env pre s))
       \<and> fle (Finite 0) (expenses (finance_run env pre s))
       \<and> fle (income (finance_run env pre s)) (income (finance_run env (pre @ post) s))
       \<and> fle (expenses (finance_run env pre s)) (expenses (finance_run env (pre @ post) s))"
proof -
  have p: "\<forall>(u, args) \<in> set pre.
             \<forall>a. amount_of (lower (join '' '' args)) = Inr a \<longrightarrow> fle (Finite 0) a"
    using assms(1) by auto
  have q: "\<forall>(u, args) \<in> set post.
             \<forall>a. amount_of (lower (join '' '' args)) = Inr a \<longrightarrow> fle (Finite 0) a"
    using assms(1) by auto
  note m1 = finance_run_mono [OF p assms(2) assms(3), of env]
  then have "fle (Finite 0) (income (finance_run env pre s))"
    "fle (Finite 0) (expenses (finance_run env pre s))" by simp_all
  note m2 = finance_run_mono [OF q this, of env]
  from m1 m2 show ?thesis by (simp add: finance_run_append)
qed

theorem finance_totals_monotone_witness:
  "fle (Finite 0) (income initial_state) \<and> fle (Finite 0) (expenses initial_state)
   \<and> fle (Finite 0) (income (finance_run member_env [(alice, [''income'', ''50''])] initial_state))
   \<and> fle (Finite 0) (expenses (finance_run member_env [(alice, [''income'', ''50''])] initial_state))
   \<and> fle (income (finance_run member_env [(alice, [''income'', ''50''])] initial_state))
          (income (finance_run member_env
             ([(alice, [''income'', ''50''])] @ [(alice, [''expense'', ''30''])]) initial_state))
   \<and> fle (expenses (finance_run member_env [(alice, [''income'', ''50''])] initial_state))
          (expenses (finance_run member_env
             ([(alice, [''income'', ''50''])] @ [(alice, [''expense'', ''30''])]) initial_state))"
proof -
  have h1: "\<forall>(u, args) \<in> set ([(alice, [''income'', ''50''])] @ [(alice, [''expense'', ''30''])]).
      \<forall>a. amount_of (lower (join '' '' args)) = Inr a \<longrightarrow> fle (Finite 0) a"
    by (simp add: command_income_50 command_expense_30)
  have h2: "fle (Finite 0) (income initial_state)"
    by (simp add: initial_state_def)
  have h3: "fle (Finite 0) (expenses initial_state)"
    by (simp add: initial_state_def)
  from finance_totals_monotone [OF h1 h2 h3, of member_env] h2 h3 show ?thesis
    by blast
qed

lemma finance_income:
  assumes "fst (check_channel_member env u s)"
    and "startswith (lower (join '' '' args)) ''income''"
    and "amount_of (lower (join '' '' args)) = Inr a"
  shows "finance env u args s =
           Returns (reply_text (s\<lparr>income := fadd (income s) a\<rparr>)
             [Txt ''Income of '', Num a, Txt '' added. Total income: '',
              Num (fadd (income s) a)])"
  using assms by (simp add: finance_def gated_pass Let_def)

lemma finance_expense:
  assumes "fst (check_channel_member env u s)"
    and "\<not> startswith (lower (join '' '' args)) ''income''"
    and "startswith (lower (join '' '' args)) ''expense''"
    and "amount_of (lower (join '' '' args)) = Inr a"
  shows "finance env u args s =
           Returns (reply_text (s\<lparr>expenses := fadd (expenses s) a\<rparr>)
             [Txt ''Expense of '', Num a, Txt '' added. Total expenses: '',
              Num (fadd (expenses s) a)])"
  using assms by (simp add: finance_def gated_pass Let_def)

lemma finance_balance:
  assumes "fst (check_channel_member env u s)"
  shows "finance env u [''balance''] s =
           Returns (reply_text s [Txt ''Your balance is: '', Num (fsub (income s) (expenses s))])"
proof -
  have "lower (join '' '' [''balance'']) = ''balance''" by code_simp
  moreover have "\<not> startswith ''balance'' ''income''" by code_simp
  moreover have "\<not> startswith ''balance'' ''expense''" by code_simp
  ultimately show ?thesis using assms by (simp add: finance_def gated_pass Let_def)
qed

lemma fst_ccm: "fst (check_channel_member env u s) = fst (check_channel_member env u s')"
  by (simp add: check_channel_member_def split: sum.splits)

lemma mset_three:
  assumes "mset xs = mset [a, b, c]"
  shows "xs \<in> set [[a, b, c], [a, c, b], [b, a, c], [b, c, a], [c, a, b], [c, b, a]]"
proof -
  from assms have "length xs = 3"
    by (metis length_Cons list.size(3) numeral_3_eq_3 size_mset)
  then obtain x y z where xs: "xs = [x, y, z]"
    by (auto simp: numeral_3_eq_3 length_Suc_conv)
  have two: "(p = q \<and> r = t) \<or> (p = t \<and> r = q)" if "mset [p, r] = mset [q, t]" for p r q t :: 'a
    using that by (auto simp: add_eq_conv_ex)
  from assms have "x \<in> set [a, b, c]"
    unfolding xs by (metis list.set_intros(1) mset_eq_setD)
  then consider "x = a" | "x = b" | "x = c" by auto
  then show ?thesis
  proof cases
    case 1
    with assms have "mset [y, z] = mset [b, c]" unfolding xs by simp
    from two [OF this] 1 show ?thesis unfolding xs by auto
  next
    case 2
    with assms have "mset [y, z] = mset [a, c]" unfolding xs by (simp add: add_mset_commute)
    from two [OF this] 2 show ?thesis unfolding xs by auto
  next
    case 3
    with assms have "add_mset c (mset [y, z]) = add_mset c (mset [a, b])"
      unfolding xs by (simp add: add_mset_commute)
    then have "mset [y, z] = mset [a, b]" by simp
    from two [OF this] 3 show ?thesis unfolding xs by auto
  qed
qed


text \<open>
  C5. From income 0 and expenses 0, the commands \<open>income 50\<close>, \<open>income 25\<close> and
  \<open>expense 30\<close> of a member, handled in any order, leave income 75 and expenses 30, and
  \<open>balance\<close> then replies "Your balance is: 45".
\<close>

theorem ledger_balance_any_order:
  assumes "mset cmds =
             mset [(u, [''income'', ''50'']), (u, [''income'', ''25'']), (u, [''expense'', ''30''])]"
    and "fst (check_channel_member env u initial_state)"
  shows "income (finance_run env cmds initial_state) = Finite 75
       \<and> expenses (finance_run env cmds initial_state) = Finite 30
       \<and> finance env u [''balance''] (finance_run env cmds initial_state) =
           Returns (reply_text (finance_run env cmds initial_state)
                      [Txt ''Your balance is: '', Num (Finite 45)])"
proof -
  have gate: "fst (check_channel_member env u s)" for s
    using assms(2) fst_ccm by blast
  have i50: "final (finance env u [''income'', ''50''] s) =
      reply_text (s\<lparr>income := fadd (income s) (Finite 50)\<rparr>)
        [Txt ''Income of '', Num (Finite 50), Txt '' added. Total income: '',
         Num (fadd (income s) (Finite 50))]" for s
    using finance_income [OF gate, of "[''income'', ''50'']" "Finite 50" s]
    by (simp add: command_income_50)
  have i25: "final (finance env u [''income'', ''25''] s) =
      reply_text (s\<lparr>income := fadd (income s) (Finite 25)\<rparr>)
        [Txt ''Income of '', Num (Finite 25), Txt '' added. Total income: '',
         Num (fadd (income s) (Finite 25))]" for s
    using finance_income [OF gate, of "[''income'', ''25'']" "Finite 25" s]
    by (simp add: command_income_25)
  have e30: "final (finance env u [''expense'', ''30''] s) =
      reply_text (s\<lparr>expenses := fadd (expenses s) (Finite 30)\<rparr>)
        [Txt ''Expense of '', Num (Finite 30), Txt '' added. Total expenses: '',
         Num (fadd (expenses s) (Finite 30))]" for s
    using finance_expense [OF gate, of "[''expense'', ''30'']" "Finite 30" s]
    by (simp add: command_expense_30)
  from mset_three [OF assms(1)]
  have totals: "income (finance_run env cmds initial_state) = Finite 75
       \<and> expenses (finance_run env cmds initial_state) = Finite 30"
    by (auto simp: i50 i25 e30 reply_text_def initial_state_def)
  with finance_balance [OF gate, of "finance_run env cmds initial_state"] show ?thesis
    by (simp add: fsub_def)
qed

theorem ledger_balance_any_order_witness:
  "mset [(alice, [''expense'', ''30'']), (alice, [''income'', ''50'']), (alice, [''income'', ''25''])]
     = mset [(alice, [''income'', ''50'']), (alice, [''income'', ''25'']),
             (alice, [''expense'', ''30''])]
   \<and> fst (check_channel_member member_env alice initial_state)
   \<and> income (finance_run member_env
        [(alice, [''expense'', ''30'']), (alice, [''income'', ''50'']),
         (alice, [''income'', ''25''])] initial_state) = Finite 75
   \<and> expenses (finance_run member_env
        [(alice, [''expense'', ''30'']), (alice, [''income'', ''50'']),
         (alice, [''income'', ''25''])] initial_state) = Finite 30
   \<and> finance member_env alice [''balance''] (finance_run member_env
        [(alice, [''expense'', ''30'']), (alice, [''income'', ''50'']),
         (alice, [''income'', ''25''])] initial_state) =
       Returns (reply_text (finance_run member_env
                  [(alice, [''expense'', ''30'']), (alice, [''income'', ''50'']),
                   (alice, [''income'', ''25''])] initial_state)
                  [Txt ''Your balance is: '', Num (Finite 45)])"
proof -
  have h1: "mset [(alice, [''expense'', ''30'']), (alice, [''income'', ''50'']),
                  (alice, [''income'', ''25''])]
     = mset [(alice, [''income'', ''50'']), (alice, [''income'', ''25'']),
             (alice, [''expense'', ''30''])]"
    by (simp add: add_mset_commute)
  have h2: "fst (check_channel_member member_env alice initial_state)"
    by code_simp
  from ledger_balance_any_order [OF h1 h2] h1 h2 show ?thesis by blast
qed

text \<open>
  C6, as stated, fails: \<open>nan\<close> and \<open>inf\<close> are not decimal amounts, yet \<open>float\<close> accepts
  them, and \<open>finance\<close> of a member adds them to the totals and replies that the amount was
  added.
\<close>

theorem finance_accepts_nan_counterexample:
  "\<not> decimal_amount ''nan''
   \<and> income (final (finance member_env alice [''income'', ''nan''] initial_state)) = NaN
   \<and> replies (final (finance member_env alice [''income'', ''nan''] initial_state))
       = [[Txt ''Income of '', Num NaN, Txt '' added. Total income: '', Num NaN]]
   \<and> \<not> decimal_amount ''inf''
   \<and> expenses (final (finance member_env alice [''expense'', ''inf''] initial_state)) = PosInf
   \<and> replies (final (finance member_env alice [''expense'', ''inf''] initial_state))
       = [[Txt ''Expense of '', Num PosInf, Txt '' added. Total expenses: '', Num PosInf]]"
  by code_simp

text \<open>
  C6, amended. For a member, when the command starts with \<open>income\<close> or \<open>expense\<close> and the
  amount is missing (IndexError: no second field) or is a token that \<open>float\<close> rejects
  (ValueError), \<open>finance\<close> returns, its only effect being the reply that asks for a valid
  amount: both totals are unchanged.
\<close>

theorem finance_invalid_amount:
  assumes "fst (check_channel_member env u s)"
    and "startswith (lower (join '' '' args)) ''income''
         \<or> startswith (lower (join '' '' args)) ''expense''"
    and "amount_of (lower (join '' '' args)) = Inl e"
  shows "finance env u args s =
           Returns (reply_text s
             [Txt (if startswith (lower (join '' '' args)) ''income''
                   then ''Please provide a valid income amount.''
                   else ''Please provide a valid expense amount.'')])
       \<and> income (final (finance env u args s)) = income s
       \<and> expenses (final (finance env u args s)) = expenses s"
proof -
  from assms(3) have "e = ValueError \<or> e = IndexError"
    by (rule amount_of_errors)
  with assms show ?thesis
    by (auto simp: finance_def gated_pass Let_def reply_text_def)
qed

theorem finance_invalid_amount_witness:
  "fst (check_channel_member member_env alice initial_state)
   \<and> (startswith (lower (join '' '' [''income'', ''abc''])) ''income''
        \<or> startswith (lower (join '' '' [''income'', ''abc''])) ''expense'')
   \<and> amount_of (lower (join '' '' [''income'', ''abc''])) = Inl ValueError
   \<and> finance member_env alice [''income'', ''abc''] initial_state =
           Returns (reply_text initial_state
             [Txt (if startswith (lower (join '' '' [''income'', ''abc''])) ''income''
                   then ''Please provide a valid income amount.''
                   else ''Please provide a valid expense amount.'')])
   \<and> income (final (finance member_env alice [''income'', ''abc''] initial_state))
       = income initial_state
   \<and> expenses (final (finance member_env alice [''income'', ''abc''] initial_state))
       = expenses initial_state
   \<and> amount_of (lower (join '' '' [''expense''])) = Inl IndexError
   \<and> finance member_env alice [''expense''] initial_state =
           Returns (reply_text initial_state
             [Txt (if startswith (lower (join '' '' [''expense''])) ''income''
                   then ''Please provide a valid income amount.''
                   else ''Please provide a valid expense amount.'')])"
proof -
  have h1: "fst (check_channel_member member_env alice initial_state)"
    by code_simp
  have h2: "startswith (lower (join '' '' [''income'', ''abc''])) ''income''
        \<or> startswith (lower (join '' '' [''income'', ''abc''])) ''expense''"
    by code_simp
  have h3: "amount_of (lower (join '' '' [''income'', ''abc''])) = Inl ValueError"
    by code_simp
  have h4: "startswith (lower (join '' '' [''expense''])) ''income''
        \<or> startswith (lower (join '' '' [''expense''])) ''expense''"
    by code_simp
  have h5: "amount_of (lower (join '' '' [''expense''])) = Inl IndexError"
    by code_simp
  from finance_invalid_amount [OF h1 h2 h3] finance_invalid_amount [OF h1 h4 h5] h1 h2 h3 h5
  show ?thesis by blast
qed

section \<open>The gate in front of every command\<close>

lemma handlers_deny:
  assumes "(name, h) \<in> set (command_handlers fuel)"
    and "\<not> fst (check_channel_member env u s)"
  shows "h env u args s =
           Returns (reply_text (snd (check_channel_member env u s)) (join_prompt env))"
  using assms
  by (auto simp: command_handlers_def start_def confession_def quiz_def finance_def study_def
        weather_def music_def fitness_def language_def gated_deny)

lemma ccm_deny:
  assumes "case member_status env u of
             Inl e \<Rightarrow> True
           | Inr status \<Rightarrow> status \<notin> set [''member'', ''administrator'', ''creator'']"
  shows "check_channel_member env u s =
           (False, s\<lparr>logged := logged s @ (case member_status env u of
                                              Inl e \<Rightarrow> [MembershipError e]
                                            | Inr status \<Rightarrow> [])\<rparr>)"
  using assms by (auto simp: check_channel_member_def split: sum.splits)

text \<open>
  C7. When the membership collaborator raises, or reports a status other than member,
  administrator or creator, the gate returns False and raises nothing; a failure is
  logged. Every command handler then returns after one reply, the join prompt: apart from
  that reply and the log entry of a failure the state is unchanged.
\<close>

theorem gate_fails_closed:
  assumes "case member_status env u of
             Inl e \<Rightarrow> True
           | Inr status \<Rightarrow> status \<notin> set [''member'', ''administrator'', ''creator'']"
  shows "check_channel_member env u s =
           (False, s\<lparr>logged := logged s @ (case member_status env u of
                                              Inl e \<Rightarrow> [MembershipError e]
                                            | Inr status \<Rightarrow> [])\<rparr>)
       \<and> (\<forall>(name, h) \<in> set (command_handlers fuel). \<forall>args.
             h env u args s =
               Returns (s\<lparr>logged := logged s @ (case member_status env u of
                                                   Inl e \<Rightarrow> [MembershipError e]
                                                 | Inr status \<Rightarrow> []),
                          replies := replies s @ [join_prompt env]\<rparr>))"
proof -
  note c = ccm_deny [OF assms, of s]
  then have d: "\<not> fst (check_channel_member env u s)" by simp
  have "h env u args s =
          Returns (s\<lparr>logged := logged s @ (case member_status env u of
                                              Inl e \<Rightarrow> [MembershipError e]
                                            | Inr status \<Rightarrow> []),
                     replies := replies s @ [join_prompt env]\<rparr>)"
    if "(name, h) \<in> set (command_handlers fuel)" for name h args
    using handlers_deny [OF that d, of args] by (simp add: c reply_text_def)
  with c show ?thesis by blast
qed

theorem gate_fails_closed_witness:
  "(case member_status failing_env alice of
      Inl e \<Rightarrow> True
    | Inr status \<Rightarrow> status \<notin> set [''member'', ''administrator'', ''creator''])
   \<and> check_channel_member failing_env alice initial_state =
           (False, initial_state\<lparr>logged := logged initial_state @
               (case member_status failing_env alice of
                  Inl e \<Rightarrow> [MembershipError e]
                | Inr status \<Rightarrow> [])\<rparr>)
   \<and> finance failing_env alice [''income'', ''50''] initial_state =
               Returns (initial_state\<lparr>logged := logged initial_state @
                           (case member_status failing_env alice of
                              Inl e \<Rightarrow> [MembershipError e]
                            | Inr status \<Rightarrow> []),
                          replies := replies initial_state @ [join_prompt failing_env]\<rparr>)
   \<and> study 3 failing_env alice [] initial_state =
               Returns (initial_state\<lparr>logged := logged initial_state @
                           (case member_status failing_env alice of
                              Inl e \<Rightarrow> [MembershipError e]
                            | Inr status \<Rightarrow> []),
                          replies := replies initial_state @ [join_prompt failing_env]\<rparr>)
   \<and> check_channel_member stranger_env alice initial_state =
           (False, initial_state\<lparr>logged := logged initial_state @
               (case member_status stranger_env alice of
                  Inl e \<Rightarrow> [MembershipError e]
                | Inr status \<Rightarrow> [])\<rparr>)
   \<and> quiz stranger_env alice [] initial_state =
               Returns (initial_state\<lparr>logged := logged initial_state @
                           (case member_status stranger_env alice of
                              Inl e \<Rightarrow> [MembershipError e]
                            | Inr status \<Rightarrow> []),
                          replies := replies initial_state @ [join_prompt stranger_env]\<rparr>)"
proof -
  have h: "case member_status failing_env alice of
      Inl e \<Rightarrow> True
    | Inr status \<Rightarrow> status \<notin> set [''member'', ''administrator'', ''creator'']"
    by code_simp
  have m: "(''finance'', finance) \<in> set (command_handlers 3)"
    "(''study'', study 3) \<in> set (command_handlers 3)"
    by (simp_all add: command_handlers_def)
  have h': "case member_status stranger_env alice of
      Inl e \<Rightarrow> True
    | Inr status \<Rightarrow> status \<notin> set [''member'', ''administrator'', ''creator'']"
    by code_simp
  have m': "(''quiz'', quiz) \<in> set (command_handlers 3)"
    by (simp add: command_handlers_def)
  from gate_fails_closed [OF h, of initial_state 3] gate_fails_closed [OF h', of initial_state 3]
    h m m'
  show ?thesis by blast
qed

section \<open>Exceptions that leave a handler\<close>






section \<open>The Pomodoro timer\<close>

lemma run_pending_jobs:
  "map (\<lambda>j. (interval_minutes j, job_text j)) (jobs (run_pending s))
     = map (\<lambda>j. (interval_minutes j, job_text j)) (jobs s)"
  by (simp add: run_pending_def Let_def comp_def)

lemma study_loop_Running:
  "\<exists>s'. study_loop fuel s = Running s'
        \<and> map (\<lambda>j. (interval_minutes j, job_text j)) (jobs s')
            = map (\<lambda>j. (interval_minutes j, job_text j)) (jobs s)"
proof (induction fuel arbitrary: s)
  case 0
  then show ?case by simp
next
  case (Suc fuel)
  from Suc.IH [of "sleep_1 (run_pending s)"] show ?case
    by (auto simp: sleep_1_def run_pending_jobs)
qed

lemma study_registers:
  assumes "fst (check_channel_member env u s)"
  shows "\<exists>s'. study fuel env u args s = Running s'
        \<and> map (\<lambda>j. (interval_minutes j, job_text j)) (jobs s')
            = map (\<lambda>j. (interval_minutes j, job_text j)) (jobs s)
              @ [(25, ''Work session is over. Take a 5-minute break!''),
                 (5, ''Break time is over. Time to work!'')]"
proof -
  let ?s3 = "reply_text
     (every_minutes_do 5 ''Break time is over. Time to work!''
        (every_minutes_do 25 ''Work session is over. Take a 5-minute break!'' s))
     [Txt ''Pomodoro timer started! Work for 25 minutes, then take a 5-minute break.'']"
  have "study fuel env u args s = study_loop fuel ?s3"
    using assms by (simp add: study_def gated_pass Let_def)
  moreover have "map (\<lambda>j. (interval_minutes j, job_text j)) (jobs ?s3)
      = map (\<lambda>j. (interval_minutes j, job_text j)) (jobs s)
              @ [(25, ''Work session is over. Take a 5-minute break!''),
                 (5, ''Break time is over. Time to work!'')]"
    by (simp add: reply_text_def every_minutes_do_def)
  ultimately show ?thesis using study_loop_Running [of fuel ?s3] by auto
qed

text \<open>
  C9. For a member, \<open>study\<close> appends one job of 25 minutes and one job of 5 minutes to the
  scheduler's jobs and then stays in its loop: for every fuel it is still running, and the
  loop only moves the due times of the jobs. A second \<open>study\<close> appends a second pair after
  the first; no job is removed or merged.
\<close>

theorem study_registers_a_pair_each_time:
  assumes "fst (check_channel_member env u s)" and "fst (check_channel_member env u' s)"
  shows "\<exists>s1 s2.
           study fuel env u args s = Running s1
         \<and> map (\<lambda>j. (interval_minutes j, job_text j)) (jobs s1)
             = map (\<lambda>j. (interval_minutes j, job_text j)) (jobs s)
               @ [(25, ''Work session is over. Take a 5-minute break!''),
                  (5, ''Break time is over. Time to work!'')]
         \<and> study fuel' env u' args' s1 = Running s2
         \<and> map (\<lambda>j. (interval_minutes j, job_text j)) (jobs s2)
             = map (\<lambda>j. (interval_minutes j, job_text j)) (jobs s)
               @ [(25, ''Work session is over. Take a 5-minute break!''),
                  (5, ''Break time is over. Time to work!''),
                  (25, ''Work session is over. Take a 5-minute break!''),
                  (5, ''Break time is over. Time to work!'')]"
proof -
  from study_registers [OF assms(1), of fuel args] obtain s1 where
    r1: "study fuel env u args s = Running s1" and
    j1: "map (\<lambda>j. (interval_minutes j, job_text j)) (jobs s1)
           = map (\<lambda>j. (interval_minutes j, job_text j)) (jobs s)
             @ [(25, ''Work session is over. Take a 5-minute break!''),
                (5, ''Break time is over. Time to work!'')]"
    by blast
  have "fst (check_channel_member env u' s1)"
    using assms(2) fst_ccm by blast
  from study_registers [OF this, of fuel' args'] obtain s2 where
    r2: "study fuel' env u' args' s1 = Running s2" and
    j2: "map (\<lambda>j. (interval_minutes j, job_text j)) (jobs s2)
           = map (\<lambda>j. (interval_minutes j, job_text j)) (jobs s1)
             @ [(25, ''Work session is over. Take a 5-minute break!''),
                (5, ''Break time is over. Time to work!'')]"
    by blast
  from j1 j2 have "map (\<lambda>j. (interval_minutes j, job_text j)) (jobs s2)
             = map (\<lambda>j. (interval_minutes j, job_text j)) (jobs s)
               @ [(25, ''Work session is over. Take a 5-minute break!''),
                  (5, ''Break time is over. Time to work!''),
                  (25, ''Work session is over. Take a 5-minute break!''),
                  (5, ''Break time is over. Time to work!'')]"
    by simp
  with r1 j1 r2 show ?thesis by blast
qed

theorem study_registers_a_pair_each_time_witness:
  "fst (check_channel_member member_env alice initial_state)
   \<and> (\<exists>s1 s2.
           study 3 member_env alice [] initial_state = Running s1
         \<and> map (\<lambda>j. (interval_minutes j, job_text j)) (jobs s1)
             = map (\<lambda>j. (interval_minutes j, job_text j)) (jobs initial_state)
               @ [(25, ''Work session is over. Take a 5-minute break!''),
                  (5, ''Break time is over. Time to work!'')]
         \<and> study 2 member_env alice [] s1 = Running s2
         \<and> map (\<lambda>j. (interval_minutes j, job_text j)) (jobs s2)
             = map (\<lambda>j. (interval_minutes j, job_text j)) (jobs initial_state)
               @ [(25, ''Work session is over. Take a 5-minute break!''),
                  (5, ''Break time is over. Time to work!''),
                  (25, ''Work session is over. Take a 5-minute break!''),
                  (5, ''Break time is over. Time to work!'')])"
proof -
  have h: "fst (check_channel_member member_env alice initial_state)"
    by code_simp
  from study_registers_a_pair_each_time [OF h h, of 3 "[]" 2 "[]"] h show ?thesis
    by blast
qed

section \<open>Free text and the gate\<close>

text \<open>
  \<open>check_answer\<close> does not consult the gate. For a sender who is not a member and a session
  that holds a stored answer, a free-text message is evaluated and answered, while every
  command of that sender is answered with the join prompt only.
\<close>

lemma free_text_is_not_gated:
  assumes "\<not> fst (check_channel_member env u s)"
    and "user_data s ''correct_answer'' = Some (JStr c)"
  shows "handle fuel env u FreeText s =
           Returns (reply_text s
             [Txt (if equal_up_to_case (message_text u) c then ''Correct!''
                   else ''Incorrect! The correct answer was: '' @ c)])
       \<and> (\<forall>(name, h) \<in> set (command_handlers fuel). \<forall>args.
             handle fuel env u (Command name args) s =
               Returns (reply_text (snd (check_channel_member env u s)) (join_prompt env)))"
proof -
  have a: "handle fuel env u FreeText s =
           Returns (reply_text s
             [Txt (if equal_up_to_case (message_text u) c then ''Correct!''
                   else ''Incorrect! The correct answer was: '' @ c)])"
    using assms(2) by (simp add: handle_def check_answer_stored lower_eq_iff)
  have "handle fuel env u (Command name args) s =
               Returns (reply_text (snd (check_channel_member env u s)) (join_prompt env))"
    if "(name, h) \<in> set (command_handlers fuel)" for name h args
  proof -
    from that obtain h' where m: "map_of (command_handlers fuel) name = Some h'"
      by (metis weak_map_of_SomeI)
    then have "(name, h') \<in> set (command_handlers fuel)"
      by (rule map_of_SomeD)
    from handlers_deny [OF this assms(1), of args] m show ?thesis
      by (simp add: handle_def)
  qed
  with a show ?thesis by blast
qed

lemma free_text_is_not_gated_example:
  "\<not> fst (check_channel_member stranger_env
            \<lparr>from_user = Some 7, message_text = ''paris''\<rparr> answered_state)
   \<and> handle 0 stranger_env \<lparr>from_user = Some 7, message_text = ''paris''\<rparr> FreeText
         answered_state =
           Returns (reply_text answered_state [Txt ''Correct!''])
   \<and> handle 0 stranger_env \<lparr>from_user = Some 7, message_text = ''paris''\<rparr>
         (Command ''quiz'' []) answered_state =
           Returns (reply_text answered_state (join_prompt stranger_env))"
proof -
  let ?u = "\<lparr>from_user = Some 7, message_text = ''paris''\<rparr>"
  have h1: "\<not> fst (check_channel_member stranger_env ?u answered_state)"
    by code_simp
  have h2: "user_data answered_state ''correct_answer'' = Some (JStr ''Paris'')"
    by code_simp
  have e: "equal_up_to_case ''paris'' ''Paris''"
    by code_simp
  have g: "snd (check_channel_member stranger_env ?u answered_state) = answered_state"
    by (simp add: check_channel_member_def member_status_def stranger_env_def)
  have m: "(''quiz'', quiz) \<in> set (command_handlers 0)"
    by (simp add: command_handlers_def)
  from free_text_is_not_gated [OF h1 h2, of 0] h1 e g m show ?thesis
    by auto
qed

text \<open>
  C10. The reply to every free-text message of a sender who is not a member fails in a
  session without a stored answer: \<open>check_answer\<close> is reached without any gate, raises
  AttributeError on \<open>None.lower()\<close> and sends no reply; the dispatcher only logs the
  exception.
\<close>

theorem free_text_without_answer_raises:
  "\<not> fst (check_channel_member stranger_env
            \<lparr>from_user = Some 7, message_text = ''hello''\<rparr> initial_state)
   \<and> handle 0 stranger_env \<lparr>from_user = Some 7, message_text = ''hello''\<rparr> FreeText
         initial_state
       = Raises AttributeError initial_state
   \<and> replies (final (dispatch 0 stranger_env \<lparr>from_user = Some 7, message_text = ''hello''\<rparr>
                        FreeText initial_state)) = []
   \<and> logged (final (dispatch 0 stranger_env \<lparr>from_user = Some 7, message_text = ''hello''\<rparr>
                       FreeText initial_state)) = [UpdateWarning AttributeError]"
proof -
  let ?u = "\<lparr>from_user = Some 7, message_text = ''hello''\<rparr>"
  have a: "\<not> fst (check_channel_member stranger_env ?u initial_state)"
    by code_simp
  have b: "handle 0 stranger_env ?u FreeText initial_state = Raises AttributeError initial_state"
    by (simp add: handle_def check_answer_def initial_state_def)
  have c: "replies (final (dispatch 0 stranger_env ?u FreeText initial_state)) = []"
    by code_simp
  have d: "logged (final (dispatch 0 stranger_env ?u FreeText initial_state))
             = [UpdateWarning AttributeError]"
    by code_simp
  from a b c d show ?thesis by blast
qed

end
